theory Spec2Isabelle
  imports Main
begin

section \<open>Errors\<close>

text \<open>
  Every exception the scheduler raises is a value. \<open>Raised n\<close> is an exception thrown by a
  bound job function (\<open>n\<close> names it); the other constructors are the exception classes of
  the module and of the Python runtime that its methods can raise.
\<close>

datatype error =
    ScheduleError
  | ScheduleValueError
  | IntervalError
  | TypeError
  | ValueError
  | OverflowError
  | AssertionError
  | Raised nat

section \<open>Instants and durations\<close>

text \<open>
  A \<open>datetime.timedelta\<close> is its length in microseconds. A \<open>datetime.datetime\<close> is the
  reading of its own clock, in microseconds since 0001-01-01 00:00:00 (the first day is a
  Monday), together with the UTC offset of its \<open>tzinfo\<close>, \<open>None\<close> for a naive datetime.
\<close>

type_synonym timedelta = int

record datetime =
  ticks :: int
  utcoffset :: "int option"

record time =
  hour :: int
  minute :: int
  second :: int
  microsecond :: int

definition us_per_second :: int where
  "us_per_second = 1000000"

definition us_per_minute :: int where
  "us_per_minute = 60000000"

definition us_per_hour :: int where
  "us_per_hour = 3600000000"

definition us_per_day :: int where
  "us_per_day = 86400000000"

definition us_per_week :: int where
  "us_per_week = 604800000000"

text \<open>\<open>datetime.max\<close> is 9999-12-31 23:59:59.999999: 3652059 days.\<close>

definition max_ticks :: int where
  "max_ticks = 3652059 * 86400000000"

definition max_delta_days :: int where
  "max_delta_days = 999999999"

definition naive :: "int \<Rightarrow> datetime" where
  "naive t = \<lparr>ticks = t, utcoffset = None\<rparr>"

text \<open>The keyword of \<open>timedelta(**{unit: n})\<close>; any other keyword is a TypeError.\<close>

definition unit_us :: "string \<Rightarrow> int option" where
  "unit_us u =
     (if u = ''seconds'' then Some us_per_second
      else if u = ''minutes'' then Some us_per_minute
      else if u = ''hours'' then Some us_per_hour
      else if u = ''days'' then Some us_per_day
      else if u = ''weeks'' then Some us_per_week
      else None)"

text \<open>A timedelta outside \<open>\<plusminus>999999999\<close> days cannot be built (OverflowError).\<close>

definition mk_timedelta :: "int \<Rightarrow> error + timedelta" where
  "mk_timedelta us =
     (if - max_delta_days \<le> us div us_per_day \<and> us div us_per_day \<le> max_delta_days
      then Inr us else Inl OverflowError)"

definition timedelta_kw :: "string \<Rightarrow> int \<Rightarrow> error + timedelta" where
  "timedelta_kw u n =
     (case unit_us u of
        None \<Rightarrow> Inl TypeError
      | Some k \<Rightarrow> mk_timedelta (n * k))"

definition td_days :: "timedelta \<Rightarrow> int" where
  "td_days d = d div us_per_day"

text \<open>\<open>dt + delta\<close>: the clock reading moves, the tzinfo stays; out of range is an error.\<close>

definition dt_add :: "datetime \<Rightarrow> timedelta \<Rightarrow> error + datetime" where
  "dt_add d delta =
     (let t = ticks d + delta
      in if 0 \<le> t \<and> t < max_ticks then Inr (d\<lparr>ticks := t\<rparr>) else Inl OverflowError)"

text \<open>
  Two datetimes are compared and subtracted as instants: readings for two naive ones,
  readings less offsets for two aware ones; a naive one against an aware one is a
  TypeError.
\<close>

definition instant :: "datetime \<Rightarrow> int" where
  "instant d = (case utcoffset d of None \<Rightarrow> ticks d | Some off \<Rightarrow> ticks d - off)"

definition comparable :: "datetime \<Rightarrow> datetime \<Rightarrow> bool" where
  "comparable a b = ((utcoffset a = None) = (utcoffset b = None))"

definition dt_sub :: "datetime \<Rightarrow> datetime \<Rightarrow> error + timedelta" where
  "dt_sub a b = (if comparable a b then Inr (instant a - instant b) else Inl TypeError)"

definition dt_lt :: "datetime \<Rightarrow> datetime \<Rightarrow> error + bool" where
  "dt_lt a b = (if comparable a b then Inr (instant a < instant b) else Inl TypeError)"

definition dt_gt :: "datetime \<Rightarrow> datetime \<Rightarrow> error + bool" where
  "dt_gt a b = dt_lt b a"


text \<open>The fields of a datetime read from its clock reading.\<close>

definition dt_day :: "datetime \<Rightarrow> int" where
  "dt_day d = ticks d div us_per_day"

definition dt_time :: "datetime \<Rightarrow> int" where
  "dt_time d = ticks d mod us_per_day"

definition dt_hour :: "datetime \<Rightarrow> int" where
  "dt_hour d = dt_time d div us_per_hour"

definition dt_minute :: "datetime \<Rightarrow> int" where
  "dt_minute d = (dt_time d div us_per_minute) mod 60"

definition dt_second :: "datetime \<Rightarrow> int" where
  "dt_second d = (dt_time d div us_per_second) mod 60"

definition dt_microsecond :: "datetime \<Rightarrow> int" where
  "dt_microsecond d = dt_time d mod us_per_second"

definition weekday :: "datetime \<Rightarrow> int" where
  "weekday d = dt_day d mod 7"

text \<open>
  \<open>dt.replace(hour=h, minute=m, second=s, microsecond=u)\<close>; a field that is not passed
  (\<open>None\<close>) keeps its value, a field out of its range is a ValueError.
\<close>

definition replace_clock ::
  "datetime \<Rightarrow> int option \<Rightarrow> int option \<Rightarrow> int \<Rightarrow> int \<Rightarrow> error + datetime" where
  "replace_clock d h m s u =
     (let h' = (case h of None \<Rightarrow> dt_hour d | Some x \<Rightarrow> x);
          m' = (case m of None \<Rightarrow> dt_minute d | Some x \<Rightarrow> x)
      in if 0 \<le> h' \<and> h' < 24 \<and> 0 \<le> m' \<and> m' < 60 \<and> 0 \<le> s \<and> s < 60 \<and> 0 \<le> u \<and> u < us_per_second
         then Inr (d\<lparr>ticks := dt_day d * us_per_day + h' * us_per_hour + m' * us_per_minute
                              + s * us_per_second + u\<rparr>)
         else Inl ValueError)"

text \<open>
  The proleptic Gregorian calendar of \<open>datetime\<close>, needed where a \<open>replace\<close> sets the
  day of the month. Ordinals start at 1 for 0001-01-01.
\<close>

definition is_leap :: "int \<Rightarrow> bool" where
  "is_leap y = (y mod 4 = 0 \<and> (y mod 100 \<noteq> 0 \<or> y mod 400 = 0))"

definition days_before_year :: "int \<Rightarrow> int" where
  "days_before_year year =
     (let y = year - 1 in y * 365 + y div 4 - y div 100 + y div 400)"

definition days_in_month :: "int \<Rightarrow> int \<Rightarrow> int" where
  "days_in_month y m =
     (if m = 2 then (if is_leap y then 29 else 28)
      else if m = 4 \<or> m = 6 \<or> m = 9 \<or> m = 11 then 30 else 31)"

fun days_before_month :: "int \<Rightarrow> nat \<Rightarrow> int" where
  "days_before_month y 0 = 0"
| "days_before_month y (Suc k) =
     (if k = 0 then 0 else days_before_month y k + days_in_month y (int k))"

definition ymd2ord :: "int \<Rightarrow> int \<Rightarrow> int \<Rightarrow> int" where
  "ymd2ord y m d = days_before_year y + days_before_month y (nat m) + d"

definition year_of_ord :: "int \<Rightarrow> int" where
  "year_of_ord n0 =
     (let n = n0 - 1;
          n400 = n div 146097; n = n mod 146097;
          n100 = n div 36524; n = n mod 36524;
          n4 = n div 1461; n = n mod 1461;
          n1 = n div 365;
          year = n400 * 400 + 1 + n100 * 100 + n4 * 4 + n1
      in if n1 = 4 \<or> n100 = 4 then year - 1 else year)"

fun month_from :: "int \<Rightarrow> int \<Rightarrow> nat \<Rightarrow> nat \<Rightarrow> int" where
  "month_from y rest m 0 = int m"
| "month_from y rest m (Suc k) =
     (if rest \<le> days_in_month y (int m) then int m
      else month_from y (rest - days_in_month y (int m)) (Suc m) k)"

definition month_of_ord :: "int \<Rightarrow> int" where
  "month_of_ord n =
     (let y = year_of_ord n in month_from y (n - days_before_year y) 1 11)"

definition dt_year :: "datetime \<Rightarrow> int" where
  "dt_year d = year_of_ord (dt_day d + 1)"

definition dt_month :: "datetime \<Rightarrow> int" where
  "dt_month d = month_of_ord (dt_day d + 1)"

definition dt_dom :: "datetime \<Rightarrow> int" where
  "dt_dom d = dt_day d + 1 - ymd2ord (dt_year d) (dt_month d) 0"

text \<open>
  \<open>dt.replace(day=.., hour=.., minute=.., second=.., microsecond=..)\<close> with the fields of
  \<open>src\<close>: year, month and tzinfo stay those of \<open>dt\<close>; a day the month does not have is a
  ValueError.
\<close>

definition replace_day_clock :: "datetime \<Rightarrow> datetime \<Rightarrow> error + datetime" where
  "replace_day_clock d src =
     (if dt_dom src \<le> days_in_month (dt_year d) (dt_month d)
      then Inr (d\<lparr>ticks := (ymd2ord (dt_year d) (dt_month d) (dt_dom src) - 1) * us_per_day
                           + dt_time src\<rparr>)
      else Inl ValueError)"

section \<open>Jobs\<close>

text \<open>
  A time zone is a \<open>pytz\<close> object; \<open>pytz\<close> is not part of the module, so a zone is the three
  operations the module calls on it: \<open>dt.replace(tzinfo=tz)\<close>, \<open>tz.normalize(dt)\<close> and
  \<open>dt.astimezone(tz)\<close>.
\<close>

record tzinfo =
  tz_attach :: "datetime \<Rightarrow> datetime"
  tz_normalize :: "datetime \<Rightarrow> error + datetime"
  tz_astimezone :: "datetime \<Rightarrow> error + datetime"

text \<open>
  What a bound function hands back: the class \<open>CancelJob\<close>, an instance of it, or any other
  value. A bound function is its outcome when called: it returns or it raises. It does
  not touch the scheduler.
\<close>

datatype ret = CancelJob | CancelJobInstance | Val nat

datatype outcome = Returns ret | Raises nat

record job =
  interval :: int
  latest :: "int option"
  job_func :: "outcome option"
  unit :: "string option"
  at_time :: "time option"
  at_time_zone :: "tzinfo option"
  last_run :: "datetime option"
  next_run :: "datetime option"
  period :: "timedelta option"
  start_day :: "string option"
  cancel_after :: "datetime option"
  tags :: "nat set"

text \<open>\<open>Job.__init__\<close>\<close>

definition new_job :: "int \<Rightarrow> job" where
  "new_job n =
     \<lparr>interval = n, latest = None, job_func = None, unit = None, at_time = None,
      at_time_zone = None, last_run = None, next_run = None, period = None,
      start_day = None, cancel_after = None, tags = {}\<rparr>"

text \<open>\<open>Job._is_overdue\<close>\<close>

definition is_overdue :: "job \<Rightarrow> datetime \<Rightarrow> error + bool" where
  "is_overdue j when =
     (case cancel_after j of
        None \<Rightarrow> Inr False
      | Some c \<Rightarrow> dt_gt when c)"

text \<open>\<open>Job._to_at_timezone\<close>\<close>

definition to_at_timezone :: "job \<Rightarrow> datetime option \<Rightarrow> error + datetime option" where
  "to_at_timezone j inp =
     (case at_time_zone j of
        None \<Rightarrow> Inr inp
      | Some tz \<Rightarrow>
          (case inp of
             None \<Rightarrow> Inr None
           | Some d \<Rightarrow>
               (case tz_astimezone tz d of Inl e \<Rightarrow> Inl e | Inr d' \<Rightarrow> Inr (Some d'))))"

text \<open>\<open>Job._normalize_preserve_timestamp\<close>\<close>

definition normalize_preserve_timestamp :: "job \<Rightarrow> datetime \<Rightarrow> error + datetime" where
  "normalize_preserve_timestamp j inp =
     (case at_time_zone j of
        None \<Rightarrow> Inr inp
      | Some tz \<Rightarrow>
          (case tz_normalize tz inp of
             Inl e \<Rightarrow> Inl e
           | Inr normalized \<Rightarrow> replace_day_clock normalized inp))"

section \<open>Computing the next run\<close>

text \<open>
  \<open>Job._schedule_next_run\<close> assigns \<open>self.period\<close> and \<open>self.next_run\<close> as it goes, and an
  exception leaves the job as it was assigned so far. Each block of the method is a step
  from a job to the error it raised, if any, and the job it left.
\<close>

type_synonym step = "error option \<times> job"

definition and_then :: "step \<Rightarrow> (job \<Rightarrow> step) \<Rightarrow> step" where
  "and_then r f = (case r of (None, j) \<Rightarrow> f j | (Some e, j) \<Rightarrow> (Some e, j))"

definition valid_unit :: "string option \<Rightarrow> bool" where
  "valid_unit u =
     (u = Some ''seconds'' \<or> u = Some ''minutes'' \<or> u = Some ''hours''
      \<or> u = Some ''days'' \<or> u = Some ''weeks'')"

definition weekdays :: "string list" where
  "weekdays = [''monday'', ''tuesday'', ''wednesday'', ''thursday'', ''friday'',
               ''saturday'', ''sunday'']"

text \<open>\<open>weekdays.index(day)\<close>, after the test \<open>day in weekdays\<close>.\<close>

fun index_of :: "string list \<Rightarrow> string \<Rightarrow> nat option" where
  "index_of [] x = None"
| "index_of (y # ys) x =
     (if x = y then Some 0
      else (case index_of ys x of None \<Rightarrow> None | Some i \<Rightarrow> Some (Suc i)))"

text \<open>\<open>dt - delta\<close> is \<open>dt + (-delta)\<close>.\<close>

definition dt_sub_td :: "datetime \<Rightarrow> timedelta \<Rightarrow> error + datetime" where
  "dt_sub_td d delta =
     (case mk_timedelta (- delta) of Inl e \<Rightarrow> Inl e | Inr m \<Rightarrow> dt_add d m)"

text \<open>
  \<open>self.period = datetime.timedelta(**{self.unit: interval})\<close> and
  \<open>self.next_run = now + self.period\<close>.
\<close>

definition set_period :: "datetime \<Rightarrow> int \<Rightarrow> job \<Rightarrow> step" where
  "set_period now n j =
     (case unit j of
        None \<Rightarrow> (Some TypeError, j)
      | Some u \<Rightarrow>
          (case timedelta_kw u n of
             Inl e \<Rightarrow> (Some e, j)
           | Inr p \<Rightarrow>
               (case dt_add now p of
                  Inl e \<Rightarrow> (Some e, j\<lparr>period := Some p\<rparr>)
                | Inr t \<Rightarrow> (None, j\<lparr>period := Some p, next_run := Some t\<rparr>))))"

text \<open>The block \<open>if self.start_day is not None\<close>.\<close>

definition apply_start_day :: "job \<Rightarrow> step" where
  "apply_start_day j =
     (case start_day j of
        None \<Rightarrow> (None, j)
      | Some sd \<Rightarrow>
          if unit j \<noteq> Some ''weeks'' then (Some ScheduleValueError, j)
          else
            (case index_of weekdays sd of
               None \<Rightarrow> (Some ScheduleValueError, j)
             | Some wd \<Rightarrow>
                 (case (next_run j, period j) of
                    (Some nr, Some p) \<Rightarrow>
                      (let d0 = int wd - weekday nr;
                           days_ahead = (if d0 \<le> 0 then d0 + 7 else d0)
                       in case mk_timedelta (days_ahead * us_per_day - p) of
                            Inl e \<Rightarrow> (Some e, j)
                          | Inr delta \<Rightarrow>
                              (case dt_add nr delta of
                                 Inl e \<Rightarrow> (Some e, j)
                               | Inr t \<Rightarrow> (None, j\<lparr>next_run := Some t\<rparr>)))
                  | _ \<Rightarrow> (Some TypeError, j))))"

text \<open>The first \<open>if self.at_time_zone is not None\<close> after it: normalise in the zone.\<close>

definition apply_normalize :: "job \<Rightarrow> step" where
  "apply_normalize j =
     (case at_time_zone j of
        None \<Rightarrow> (None, j)
      | Some tz \<Rightarrow>
          (case next_run j of
             None \<Rightarrow> (Some TypeError, j)
           | Some nr \<Rightarrow>
               (case tz_normalize tz nr of
                  Inl e \<Rightarrow> (Some e, j)
                | Inr t \<Rightarrow> (None, j\<lparr>next_run := Some t\<rparr>))))"

text \<open>
  The block \<open>if self.at_time is not None\<close>: the clock fields of the anchor are written into
  \<open>next_run\<close>, and \<open>next_run\<close> goes back one day, hour or minute when the anchor is still
  ahead in the running one.
\<close>

definition roll_back :: "timedelta \<Rightarrow> job \<Rightarrow> step" where
  "roll_back delta j =
     (case next_run j of
        None \<Rightarrow> (Some TypeError, j)
      | Some nr \<Rightarrow>
          (case dt_sub_td nr delta of
             Inl e \<Rightarrow> (Some e, j)
           | Inr t \<Rightarrow> (None, j\<lparr>next_run := Some t\<rparr>)))"

text \<open>\<open>self.next_run.replace(**kwargs)\<close> with the fields of the anchor that the unit asks for.\<close>

definition write_at_time :: "job \<Rightarrow> time \<Rightarrow> datetime \<Rightarrow> error + datetime" where
  "write_at_time j at nr =
     replace_clock nr
       (if unit j = Some ''days'' \<or> start_day j \<noteq> None then Some (hour at) else None)
       (if unit j = Some ''days'' \<or> unit j = Some ''hours'' \<or> start_day j \<noteq> None
        then Some (minute at) else None)
       (second at) 0"

text \<open>\<open>not last_run_tz or (self.next_run - last_run_tz) > self.period\<close>\<close>

definition past_period :: "job \<Rightarrow> datetime \<Rightarrow> timedelta \<Rightarrow> error + bool" where
  "past_period j nr p =
     (case to_at_timezone j (last_run j) of
        Inl e \<Rightarrow> Inl e
      | Inr None \<Rightarrow> Inr True
      | Inr (Some l) \<Rightarrow>
          (case dt_sub nr l of
             Inl e \<Rightarrow> Inl e
           | Inr d \<Rightarrow> Inr (p < d)))"

text \<open>
  The chain \<open>if self.unit == "days" ... elif self.unit == "hours" ... elif self.unit ==
  "minutes" ...\<close>: what \<open>next_run\<close> goes back by, if by anything.
\<close>

definition anchor_ahead :: "job \<Rightarrow> time \<Rightarrow> datetime \<Rightarrow> datetime \<Rightarrow> timedelta option" where
  "anchor_ahead j at now nr =
     (if unit j = Some ''days'' \<and> dt_time now < dt_time nr \<and> interval j = 1
      then Some us_per_day
      else if unit j = Some ''hours''
              \<and> (dt_minute now < minute at
                   \<or> (minute at = dt_minute now \<and> dt_second now < second at))
      then Some us_per_hour
      else if unit j = Some ''minutes'' \<and> dt_second now < second at
      then Some us_per_minute
      else None)"

definition apply_at_time :: "datetime \<Rightarrow> job \<Rightarrow> step" where
  "apply_at_time now j =
     (case at_time j of
        None \<Rightarrow> (None, j)
      | Some at \<Rightarrow>
          if unit j \<noteq> Some ''days'' \<and> unit j \<noteq> Some ''hours'' \<and> unit j \<noteq> Some ''minutes''
             \<and> start_day j = None
          then (Some ScheduleValueError, j)
          else
            (case (next_run j, period j) of
               (Some nr, Some p) \<Rightarrow>
                 (case write_at_time j at nr of
                    Inl e \<Rightarrow> (Some e, j)
                  | Inr nr1 \<Rightarrow>
                      (case past_period (j\<lparr>next_run := Some nr1\<rparr>) nr1 p of
                         Inl e \<Rightarrow> (Some e, j\<lparr>next_run := Some nr1\<rparr>)
                       | Inr False \<Rightarrow> (None, j\<lparr>next_run := Some nr1\<rparr>)
                       | Inr True \<Rightarrow>
                           (case anchor_ahead (j\<lparr>next_run := Some nr1\<rparr>) at now nr1 of
                              None \<Rightarrow> (None, j\<lparr>next_run := Some nr1\<rparr>)
                            | Some delta \<Rightarrow> roll_back delta (j\<lparr>next_run := Some nr1\<rparr>))))
             | _ \<Rightarrow> (Some TypeError, j)))"

text \<open>The block \<open>if self.start_day is not None and self.at_time is not None\<close>.\<close>

definition apply_weekday_at :: "datetime \<Rightarrow> job \<Rightarrow> step" where
  "apply_weekday_at now j =
     (if start_day j \<noteq> None \<and> at_time j \<noteq> None
      then
        (case (next_run j, period j) of
           (Some nr, Some p) \<Rightarrow>
             (case dt_sub nr now of
                Inl e \<Rightarrow> (Some e, j)
              | Inr d \<Rightarrow> if 7 \<le> td_days d then roll_back p j else (None, j))
         | _ \<Rightarrow> (Some TypeError, j))
      else (None, j))"

text \<open>The last \<open>if self.at_time_zone is not None\<close>.\<close>

definition apply_preserve :: "job \<Rightarrow> step" where
  "apply_preserve j =
     (case at_time_zone j of
        None \<Rightarrow> (None, j)
      | Some tz \<Rightarrow>
          (case next_run j of
             None \<Rightarrow> (Some TypeError, j)
           | Some nr \<Rightarrow>
               (case normalize_preserve_timestamp j nr of
                  Inl e \<Rightarrow> (Some e, j)
                | Inr t \<Rightarrow> (None, j\<lparr>next_run := Some t\<rparr>))))"

text \<open>
  The method from \<open>self.period = ...\<close> on, for the interval \<open>n\<close> it resolved and the
  reference instant \<open>now\<close> it read.
\<close>

definition schedule_from :: "datetime \<Rightarrow> int \<Rightarrow> job \<Rightarrow> step" where
  "schedule_from now n j =
     and_then (and_then (and_then (and_then (and_then
       (set_period now n j) apply_start_day) apply_normalize) (apply_at_time now))
       (apply_weekday_at now)) apply_preserve"

section \<open>The scheduler and its jobs\<close>

text \<open>
  Jobs are objects that the scheduler's list, the caller and the loop of \<open>run_pending\<close>
  share, so a job is a reference into a store (\<open>heap\<close>); \<open>jobs\<close>, \<open>is_realtime\<close> and
  \<open>stored_timestamp\<close> (the attribute \<open>_timestamp\<close>) are the scheduler's attributes. Every job is
  made by \<open>Scheduler.every\<close>, so its \<open>scheduler\<close> attribute is this scheduler. The rest is
  what the methods read from or do to their surroundings: \<open>wall_clock\<close>, the successive
  readings of \<open>datetime.now\<close>; \<open>rand_source\<close>, the successive draws of the random module;
  \<open>invoked\<close>, the jobs whose bound function has been called, in order of the calls.
\<close>

record world =
  jobs :: "nat list"
  is_realtime :: bool
  stored_timestamp :: "datetime option"
  heap :: "nat \<Rightarrow> job option"
  allocated :: nat
  wall_clock :: "nat \<Rightarrow> int"
  wall_reads :: nat
  rand_source :: "nat \<Rightarrow> nat"
  rand_reads :: nat
  invoked :: "nat list"

text \<open>\<open>Scheduler.__init__\<close>, in given surroundings.\<close>

definition init_scheduler ::
  "bool \<Rightarrow> datetime option \<Rightarrow> (nat \<Rightarrow> int) \<Rightarrow> (nat \<Rightarrow> nat) \<Rightarrow> error + world" where
  "init_scheduler realtime start_timestamp clock rnd =
     (if realtime \<and> start_timestamp \<noteq> None then Inl ScheduleError
      else if \<not> realtime \<and> start_timestamp = None then Inl ScheduleError
      else Inr \<lparr>jobs = [], is_realtime = realtime, stored_timestamp = start_timestamp,
                heap = (\<lambda>r. None), allocated = 0, wall_clock = clock, wall_reads = 0,
                rand_source = rnd, rand_reads = 0, invoked = []\<rparr>)"

text \<open>
  The property \<open>Scheduler.timestamp\<close>. A wall-clock scheduler reads the system clock
  each time, as an aware datetime in UTC. A simulated scheduler always holds a
  timestamp (\<open>__init__\<close> sees to it); without one every use of the value would fail.
\<close>

definition timestamp_get :: "world \<Rightarrow> (error + datetime) \<times> world" where
  "timestamp_get w =
     (if is_realtime w
      then (Inr \<lparr>ticks = wall_clock w (wall_reads w), utcoffset = Some 0\<rparr>,
            w\<lparr>wall_reads := Suc (wall_reads w)\<rparr>)
      else (case stored_timestamp w of None \<Rightarrow> (Inl TypeError, w) | Some t \<Rightarrow> (Inr t, w)))"


text \<open>\<open>random.randint(a, b)\<close> for \<open>a \<le> b\<close>: the next draw, brought into \<open>[a, b]\<close>.\<close>

definition randint :: "int \<Rightarrow> int \<Rightarrow> world \<Rightarrow> int \<times> world" where
  "randint a b w =
     (a + int (rand_source w (rand_reads w) mod nat (b - a + 1)),
      w\<lparr>rand_reads := Suc (rand_reads w)\<rparr>)"

text \<open>\<open>Job._schedule_next_run\<close>: the effective interval.\<close>

definition resolve_interval :: "job \<Rightarrow> world \<Rightarrow> (error + int) \<times> world" where
  "resolve_interval j w =
     (case latest j of
        None \<Rightarrow> (Inr (interval j), w)
      | Some l \<Rightarrow>
          if \<not> interval j \<le> l then (Inl ScheduleError, w)
          else (case randint (interval j) l w of (n, w') \<Rightarrow> (Inr n, w')))"

text \<open>\<open>Job._schedule_next_run\<close>: the reference instant \<open>now\<close>.\<close>

definition reference_now :: "job \<Rightarrow> world \<Rightarrow> (error + datetime) \<times> world" where
  "reference_now j w =
     (case at_time_zone j of
        None \<Rightarrow> timestamp_get w
      | Some tz \<Rightarrow>
          (case timestamp_get w of
             (Inl e, w1) \<Rightarrow> (Inl e, w1)
           | (Inr t1, w1) \<Rightarrow>
               (case timestamp_get w1 of
                  (Inl e, w2) \<Rightarrow> (Inl e, w2)
                | (Inr t2, w2) \<Rightarrow>
                    if utcoffset t1 = None then (Inr (tz_attach tz t2), w2)
                    else
                      (case tz_astimezone tz t2 of
                         Inl e \<Rightarrow> (Inl e, w2)
                       | Inr a \<Rightarrow> (tz_normalize tz a, w2)))))"

text \<open>\<open>Job._schedule_next_run\<close> of the job at reference \<open>r\<close>.\<close>

definition schedule_next_run :: "nat \<Rightarrow> world \<Rightarrow> error option \<times> world" where
  "schedule_next_run r w =
     (case heap w r of
        None \<Rightarrow> (Some TypeError, w)
      | Some j \<Rightarrow>
          if \<not> valid_unit (unit j) then (Some ScheduleValueError, w)
          else
            (case resolve_interval j w of
               (Inl e, w1) \<Rightarrow> (Some e, w1)
             | (Inr n, w1) \<Rightarrow>
                 (case reference_now j w1 of
                    (Inl e, w2) \<Rightarrow> (Some e, w2)
                  | (Inr now, w2) \<Rightarrow>
                      (case schedule_from now n j of
                         (e, j') \<Rightarrow> (e, w2\<lparr>heap := (heap w2)(r \<mapsto> j')\<rparr>)))))"


text \<open>\<open>Job.run\<close>\<close>

definition run :: "nat \<Rightarrow> world \<Rightarrow> (error + ret) \<times> world" where
  "run r w =
     (case heap w r of
        None \<Rightarrow> (Inl TypeError, w)
      | Some j \<Rightarrow>
          (case timestamp_get w of
             (Inl e, w1) \<Rightarrow> (Inl e, w1)
           | (Inr now, w1) \<Rightarrow>
               (case is_overdue j now of
                  Inl e \<Rightarrow> (Inl e, w1)
                | Inr True \<Rightarrow> (Inr CancelJob, w1)
                | Inr False \<Rightarrow>
                    (case job_func j of
                       None \<Rightarrow> (Inl TypeError, w1)
                     | Some (Raises x) \<Rightarrow> (Inl (Raised x), w1\<lparr>invoked := invoked w1 @ [r]\<rparr>)
                     | Some (Returns v) \<Rightarrow>
                         (case timestamp_get (w1\<lparr>invoked := invoked w1 @ [r]\<rparr>) of
                            (Inl e, w2) \<Rightarrow> (Inl e, w2)
                          | (Inr t, w2) \<Rightarrow>
                              (case schedule_next_run r
                                      (w2\<lparr>heap := (heap w2)(r \<mapsto> j\<lparr>last_run := Some t\<rparr>)\<rparr>) of
                                 (Some e, w3) \<Rightarrow> (Inl e, w3)
                               | (None, w3) \<Rightarrow>
                                   (case heap w3 r of
                                      None \<Rightarrow> (Inl TypeError, w3)
                                    | Some j3 \<Rightarrow>
                                        (case next_run j3 of
                                           None \<Rightarrow> (Inl TypeError, w3)
                                         | Some nr \<Rightarrow>
                                             (case is_overdue j3 nr of
                                                Inl e \<Rightarrow> (Inl e, w3)
                                              | Inr True \<Rightarrow> (Inr CancelJob, w3)
                                              | Inr False \<Rightarrow> (Inr v, w3))))))))))"



text \<open>\<open>Scheduler.cancel_job\<close>: \<open>list.remove\<close>, its ValueError caught.\<close>

definition cancel_job :: "nat \<Rightarrow> world \<Rightarrow> world" where
  "cancel_job r w = w\<lparr>jobs := remove1 r (jobs w)\<rparr>"

text \<open>\<open>Scheduler._run_job\<close>\<close>

definition run_job :: "nat \<Rightarrow> world \<Rightarrow> error option \<times> world" where
  "run_job r w =
     (case run r w of
        (Inl e, w1) \<Rightarrow> (Some e, w1)
      | (Inr v, w1) \<Rightarrow>
          if v = CancelJobInstance \<or> v = CancelJob then (None, cancel_job r w1)
          else (None, w1))"


text \<open>
  \<open>sorted\<close> orders the jobs by \<open>Job.__lt__\<close>, that is by \<open>next_run\<close>, and keeps the order of
  the list among equal ones. Two or more jobs are compared with each other, which fails
  when a \<open>next_run\<close> is missing or when naive and aware ones are mixed.
\<close>

definition next_run_of :: "world \<Rightarrow> nat \<Rightarrow> datetime option" where
  "next_run_of w r = (case heap w r of None \<Rightarrow> None | Some j \<Rightarrow> next_run j)"

definition sort_key_of :: "world \<Rightarrow> nat \<Rightarrow> int" where
  "sort_key_of w r = (case next_run_of w r of None \<Rightarrow> 0 | Some t \<Rightarrow> instant t)"

definition all_naive :: "world \<Rightarrow> nat list \<Rightarrow> bool" where
  "all_naive w rs =
     list_all (\<lambda>r. case next_run_of w r of None \<Rightarrow> False | Some t \<Rightarrow> utcoffset t = None) rs"

definition all_aware :: "world \<Rightarrow> nat list \<Rightarrow> bool" where
  "all_aware w rs =
     list_all (\<lambda>r. case next_run_of w r of None \<Rightarrow> False | Some t \<Rightarrow> utcoffset t \<noteq> None) rs"

definition mutually_comparable :: "world \<Rightarrow> nat list \<Rightarrow> bool" where
  "mutually_comparable w rs = (length rs \<le> 1 \<or> all_naive w rs \<or> all_aware w rs)"


fun run_jobs :: "nat list \<Rightarrow> world \<Rightarrow> error option \<times> world" where
  "run_jobs [] w = (None, w)"
| "run_jobs (r # rs) w =
     (case run_job r w of
        (Some e, w1) \<Rightarrow> (Some e, w1)
      | (None, w1) \<Rightarrow> run_jobs rs w1)"




text \<open>\<open>Scheduler.get_jobs\<close>\<close>

definition has_tag :: "world \<Rightarrow> nat \<Rightarrow> nat \<Rightarrow> bool" where
  "has_tag w tg r = (case heap w r of None \<Rightarrow> False | Some j \<Rightarrow> tg \<in> tags j)"

definition get_jobs :: "nat option \<Rightarrow> world \<Rightarrow> nat list" where
  "get_jobs tg w =
     (case tg of None \<Rightarrow> jobs w | Some x \<Rightarrow> filter (has_tag w x) (jobs w))"


text \<open>
  \<open>Scheduler.get_next_run\<close>: \<open>min\<close> keeps the first of the least jobs, and compares as
  \<open>sorted\<close> does.
\<close>

fun min_job :: "world \<Rightarrow> nat \<Rightarrow> nat list \<Rightarrow> nat" where
  "min_job w m [] = m"
| "min_job w m (r # rs) =
     min_job w (if sort_key_of w r < sort_key_of w m then r else m) rs"

definition get_next_run :: "nat option \<Rightarrow> world \<Rightarrow> error + datetime option" where
  "get_next_run tg w =
     (if jobs w = [] then Inr None
      else
        (case get_jobs tg w of
           [] \<Rightarrow> Inr None
         | r # rs \<Rightarrow>
             if mutually_comparable w (r # rs) then Inr (next_run_of w (min_job w r rs))
             else Inl TypeError))"

section \<open>Configuring a job\<close>







text \<open>
  \<open>Job.until\<close>. Its argument is a datetime, a timedelta, a time, a string or anything
  else. \<open>strptime\<close> belongs to the Python library and is a parameter: the datetime it
  parses from a string in a format, if the string is in that format.
\<close>

datatype until_time =
    UntilDatetime datetime
  | UntilTimedelta timedelta
  | UntilTime time
  | UntilStr string
  | UntilOther

definition until_formats :: "string list" where
  "until_formats = [''%Y-%m-%d %H:%M:%S'', ''%Y-%m-%d %H:%M'', ''%Y-%m-%d'', ''%H:%M:%S'', ''%H:%M'']"

text \<open>\<open>Job._decode_datetimestr\<close>\<close>

fun decode_datetimestr ::
  "(string \<Rightarrow> string \<Rightarrow> datetime option) \<Rightarrow> string \<Rightarrow> string list \<Rightarrow> datetime option" where
  "decode_datetimestr strptime s [] = None"
| "decode_datetimestr strptime s (f # fs) =
     (case strptime s f of
        Some d \<Rightarrow> Some d
      | None \<Rightarrow> decode_datetimestr strptime s fs)"

definition time_us :: "time \<Rightarrow> int" where
  "time_us t =
     hour t * us_per_hour + minute t * us_per_minute + second t * us_per_second + microsecond t"

text \<open>The first part of \<open>until\<close>: the deadline the argument stands for.\<close>

definition until_deadline ::
  "(string \<Rightarrow> string \<Rightarrow> datetime option) \<Rightarrow> until_time \<Rightarrow> world \<Rightarrow> (error + datetime) \<times> world" where
  "until_deadline strptime u w =
     (case u of
        UntilDatetime d \<Rightarrow> (Inr d, w)
      | UntilTimedelta delta \<Rightarrow>
          (case timestamp_get w of
             (Inl e, w1) \<Rightarrow> (Inl e, w1)
           | (Inr now, w1) \<Rightarrow> (dt_add now delta, w1))
      | UntilTime t \<Rightarrow>
          (case timestamp_get w of
             (Inl e, w1) \<Rightarrow> (Inl e, w1)
           | (Inr now, w1) \<Rightarrow> (Inr (naive (dt_day now * us_per_day + time_us t)), w1))
      | UntilStr s \<Rightarrow>
          (case decode_datetimestr strptime s until_formats of
             None \<Rightarrow> (Inl ScheduleValueError, w)
           | Some c \<Rightarrow>
               if CHR ''-'' \<notin> set s
               then
                 (case timestamp_get w of
                    (Inl e, w1) \<Rightarrow> (Inl e, w1)
                  | (Inr now, w1) \<Rightarrow>
                      (Inr (c\<lparr>ticks := dt_day now * us_per_day + dt_time c\<rparr>), w1))
               else (Inr c, w))
      | UntilOther \<Rightarrow> (Inl TypeError, w))"


section \<open>Notions for the statements\<close>

text \<open>
  \<open>frame j j'\<close>: \<open>j'\<close> is \<open>j\<close> up to \<open>period\<close> and \<open>next_run\<close>, the two attributes that
  \<open>_schedule_next_run\<close> assigns. \<open>scheduled j\<close>: the job has a \<open>next_run\<close>. \<open>env_step w w'\<close>:
  \<open>w'\<close> is \<open>w\<close> up to the number of clock readings and of random draws taken.
  \<open>run_start r j now w\<close>: the state in which \<open>run\<close> calls \<open>_schedule_next_run\<close>, the bound
  function called and \<open>last_run\<close> assigned.
\<close>

definition frame :: "job \<Rightarrow> job \<Rightarrow> bool" where
  "frame j j' =
     (interval j' = interval j \<and> latest j' = latest j \<and> job_func j' = job_func j
      \<and> unit j' = unit j \<and> at_time j' = at_time j \<and> at_time_zone j' = at_time_zone j
      \<and> last_run j' = last_run j \<and> start_day j' = start_day j
      \<and> cancel_after j' = cancel_after j \<and> tags j' = tags j)"



definition run_start :: "nat \<Rightarrow> job \<Rightarrow> datetime \<Rightarrow> world \<Rightarrow> world" where
  "run_start r j now w =
     w\<lparr>invoked := invoked w @ [r], heap := (heap w)(r \<mapsto> j\<lparr>last_run := Some now\<rparr>)\<rparr>"

section \<open>Example schedulers\<close>

text \<open>
  A simulated scheduler with no job at the naive instant \<open>t\<close>, as
  \<open>Scheduler(is_realtime=False, start_timestamp=...)\<close> makes it, and a wall-clock one.
\<close>

definition simulated :: "int \<Rightarrow> world" where
  "simulated t =
     \<lparr>jobs = [], is_realtime = False, stored_timestamp = Some (naive t),
      heap = (\<lambda>r. None), allocated = 0, wall_clock = (\<lambda>k. 0), wall_reads = 0,
      rand_source = (\<lambda>k. 0), rand_reads = 0, invoked = []\<rparr>"

definition realtime :: world where
  "realtime =
     \<lparr>jobs = [], is_realtime = True, stored_timestamp = None,
      heap = (\<lambda>r. None), allocated = 0, wall_clock = (\<lambda>k. int k), wall_reads = 0,
      rand_source = (\<lambda>k. 0), rand_reads = 0, invoked = []\<rparr>"

text \<open>
  A simulated scheduler at the naive instant \<open>t\<close> whose one job, at reference 0, is \<open>j\<close>;
  and a job every 5 seconds whose function returns a value.
\<close>

definition with_job :: "job \<Rightarrow> int \<Rightarrow> world" where
  "with_job j t = (simulated t)\<lparr>jobs := [0], heap := (\<lambda>r. None)(0 \<mapsto> j), allocated := 1\<rparr>"

definition every_5_seconds :: job where
  "every_5_seconds =
     (new_job 5)\<lparr>unit := Some ''seconds'', job_func := Some (Returns (Val 7)),
                 period := Some 5000000, next_run := Some (naive 5000000)\<rparr>"







text \<open>
  A \<open>datetime.time\<close> has fields in range (\<open>valid_time\<close>); \<open>clock_us\<close> is its hour, minute
  and second as microseconds after midnight. \<open>next_weekday_at k a T\<close> is the reading
  of the next day of the week number \<open>k\<close> (Monday is 0) with the clock at \<open>a\<close>, seen from
  the reading \<open>T\<close>: the day is 1 to 7 days ahead, and a whole week ahead falls back on
  today when today's \<open>a\<close> is not yet past.
\<close>

definition valid_time :: "time \<Rightarrow> bool" where
  "valid_time t =
     (0 \<le> hour t \<and> hour t < 24 \<and> 0 \<le> minute t \<and> minute t < 60
      \<and> 0 \<le> second t \<and> second t < 60 \<and> 0 \<le> microsecond t \<and> microsecond t < 1000000)"

definition clock_us :: "time \<Rightarrow> int" where
  "clock_us t = hour t * us_per_hour + minute t * us_per_minute + second t * us_per_second"

definition next_weekday_at :: "int \<Rightarrow> int \<Rightarrow> int \<Rightarrow> int" where
  "next_weekday_at k a T =
     (let wd = (T div us_per_day) mod 7;
          da = (if k - wd \<le> 0 then k - wd + 7 else k - wd);
          t1 = (T div us_per_day + da) * us_per_day + a
      in if 7 \<le> (t1 - T) div us_per_day then t1 - 7 * us_per_day else t1)"

text \<open>
  The clock anchors 10:30 and 12:00, the jobs \<open>every().day.at("10:30")\<close> and
  \<open>every().monday.at("12:00")\<close> before \<open>do\<close>, and a scheduler that holds such a job, not yet
  registered, at reference 0.
\<close>

definition half_past_ten :: time where
  "half_past_ten = \<lparr>hour = 10, minute = 30, second = 0, microsecond = 0\<rparr>"

definition noon :: time where
  "noon = \<lparr>hour = 12, minute = 0, second = 0, microsecond = 0\<rparr>"

definition unregistered :: "job \<Rightarrow> int \<Rightarrow> world" where
  "unregistered j t = (simulated t)\<lparr>heap := (\<lambda>r. None)(0 \<mapsto> j), allocated := 1\<rparr>"

definition every_day_at_1030 :: job where
  "every_day_at_1030 = (new_job 1)\<lparr>unit := Some ''days'', at_time := Some half_past_ten\<rparr>"

definition every_monday_at_noon :: job where
  "every_monday_at_noon =
     (new_job 1)\<lparr>unit := Some ''weeks'', start_day := Some ''monday'', at_time := Some noon\<rparr>"


section \<open>The calls of the interface\<close>

















section \<open>What the next-run computation leaves alone\<close>


lemma timestamp_get_simulated:
  "\<not> is_realtime w \<Longrightarrow> stored_timestamp w = Some t \<Longrightarrow> timestamp_get w = (Inr t, w)"
  by (simp add: timestamp_get_def)












section \<open>Running a job\<close>


lemma is_overdue_frame: "frame j j' \<Longrightarrow> is_overdue j' t = is_overdue j t"
  by (simp add: is_overdue_def frame_def)


lemma run_simulated:
  assumes "\<not> is_realtime w" "stored_timestamp w = Some now" "heap w r = Some j"
  shows "run r w =
     (case is_overdue j now of
        Inl e \<Rightarrow> (Inl e, w)
      | Inr True \<Rightarrow> (Inr CancelJob, w)
      | Inr False \<Rightarrow>
          (case job_func j of
             None \<Rightarrow> (Inl TypeError, w)
           | Some (Raises x) \<Rightarrow> (Inl (Raised x), w\<lparr>invoked := invoked w @ [r]\<rparr>)
           | Some (Returns v) \<Rightarrow>
               (case schedule_next_run r (run_start r j now w) of
                  (Some e, w3) \<Rightarrow> (Inl e, w3)
                | (None, w3) \<Rightarrow>
                    (case heap w3 r of
                       None \<Rightarrow> (Inl TypeError, w3)
                     | Some j3 \<Rightarrow>
                         (case next_run j3 of
                            None \<Rightarrow> (Inl TypeError, w3)
                          | Some nr \<Rightarrow>
                              (case is_overdue j3 nr of
                                 Inl e \<Rightarrow> (Inl e, w3)
                               | Inr True \<Rightarrow> (Inr CancelJob, w3)
                               | Inr False \<Rightarrow> (Inr v, w3)))))))"
  using assms
  by (simp add: run_def timestamp_get_def run_start_def
      split: sum.split bool.split option.split outcome.split)

lemma with_job_simps:
  "\<not> is_realtime (with_job j t)" "stored_timestamp (with_job j t) = Some (naive t)"
  "heap (with_job j t) 0 = Some j" "invoked (with_job j t) = []" "jobs (with_job j t) = [0]"
  by (simp_all add: with_job_def simulated_def)


lemma every_5_seconds_next_run: "map_option next_run (heap (snd (schedule_next_run 0 (run_start 0 (every_5_seconds\<lparr>cancel_after := Some (naive 22000000)\<rparr>) (naive 20000000) (with_job (every_5_seconds\<lparr>cancel_after := Some (naive 22000000)\<rparr>) 20000000)))) 0) = Some (Some (naive 25000000))"
  by code_simp




text \<open>
  C8. When the bound function raises, \<open>run\<close> raises the same exception, and so do
  \<open>_run_job\<close> and the loop over the due jobs; the job is left exactly as it was before
  the run (\<open>last_run\<close> and \<open>next_run\<close> included): nothing is rescheduled and the deadline
  is not looked at again.
\<close>

theorem run_raises:
  assumes "\<not> is_realtime w" and "stored_timestamp w = Some now" and "heap w r = Some j"
    and "is_overdue j now = Inr False" and "job_func j = Some (Raises x)"
  shows "run r w = (Inl (Raised x), w\<lparr>invoked := invoked w @ [r]\<rparr>) \<and>
         run_job r w = (Some (Raised x), w\<lparr>invoked := invoked w @ [r]\<rparr>) \<and>
         heap (snd (run r w)) r = Some j \<and>
         run_jobs (r # rs) w = (Some (Raised x), w\<lparr>invoked := invoked w @ [r]\<rparr>)"
  using assms run_simulated [OF assms(1,2,3)] by (simp add: run_job_def)


theorem run_raises_witness:
  "run 0 (with_job (every_5_seconds\<lparr>job_func := Some (Raises 3)\<rparr>) 20000000)
     = (Inl (Raised 3),
        (with_job (every_5_seconds\<lparr>job_func := Some (Raises 3)\<rparr>) 20000000)\<lparr>invoked := [0]\<rparr>)
   \<and> heap (snd (run 0 (with_job (every_5_seconds\<lparr>job_func := Some (Raises 3)\<rparr>) 20000000))) 0
       = Some (every_5_seconds\<lparr>job_func := Some (Raises 3)\<rparr>)"
  using run_raises [of "with_job (every_5_seconds\<lparr>job_func := Some (Raises 3)\<rparr>) 20000000"
      "naive 20000000" 0 "every_5_seconds\<lparr>job_func := Some (Raises 3)\<rparr>" 3 "[]"]
  by (simp add: with_job_simps is_overdue_def every_5_seconds_def new_job_def)

section \<open>The cadence of a job with no anchor\<close>

lemma and_then_ok: "and_then (None, j) f = f j"
  by (simp add: and_then_def)



lemma set_period_ok:
  assumes "unit j = Some u" "unit_us u = Some k"
    "- max_delta_days \<le> (n * k) div us_per_day" "(n * k) div us_per_day \<le> max_delta_days"
    "0 \<le> ticks now + n * k" "ticks now + n * k < max_ticks"
  shows "set_period now n j =
     (None, j\<lparr>period := Some (n * k), next_run := Some (now\<lparr>ticks := ticks now + n * k\<rparr>)\<rparr>)"
  using assms by (simp add: set_period_def timedelta_kw_def mk_timedelta_def dt_add_def)







section \<open>The simulated clock\<close>

lemma init_scheduler_modes:
  "init_scheduler True (Some t) clock rnd = Inl ScheduleError"
  "init_scheduler False None clock rnd = Inl ScheduleError"
  by (simp_all add: init_scheduler_def)



section \<open>Deadlines\<close>


lemma until_deadline_datetime: "until_deadline strptime (UntilDatetime d) w = (Inr d, w)"
  by (simp add: until_deadline_def)

lemma until_deadline_date_string:
  "decode_datetimestr strptime s until_formats = Some d \<Longrightarrow> CHR ''-'' \<in> set s
     \<Longrightarrow> until_deadline strptime (UntilStr s) w = (Inr d, w)"
  by (simp add: until_deadline_def)







section \<open>Randomised intervals\<close>












section \<open>Clock and weekday anchors\<close>

lemma day_split:
  fixes a n :: int
  assumes "0 \<le> a" "a < 86400000000"
  shows "(n * 86400000000 + a) div 86400000000 = n" "(n * 86400000000 + a) mod 86400000000 = a"
  using assms by simp_all

lemma wk_arith:
  fixes T a k :: int
  assumes "0 \<le> T" "0 \<le> a" "a < 86400000000" "0 \<le> k" "k < 7"
    and "wd = (T div 86400000000) mod 7"
    and "da = (if k - wd \<le> 0 then k - wd + 7 else k - wd)"
    and "t1 = (T div 86400000000 + da) * 86400000000 + a"
    and "t = (if 7 \<le> (t1 - T) div 86400000000 then t1 - 7 * 86400000000 else t1)"
  shows "(t div 86400000000) mod 7 = k \<and> t mod 86400000000 = a
     \<and> 0 \<le> (t - T) div 86400000000 \<and> (t - T) div 86400000000 \<le> 6 \<and> T \<le> t"
proof -
  define q where "q = T div 86400000000"
  define r where "r = T mod 86400000000"
  have T: "T = q * 86400000000 + r" "0 \<le> r" "r < 86400000000" "0 \<le> q"
    using assms(1) by (simp_all add: q_def r_def pos_imp_zdiv_nonneg_iff)
  have wd: "wd = q mod 7" "0 \<le> wd" "wd < 7" using assms(6) by (simp_all add: q_def)
  have da: "1 \<le> da" "da \<le> 7" "da = k - wd \<or> da = k - wd + 7" using assms(7) wd assms(4,5) by auto
  have t1: "t1 = (q + da) * 86400000000 + a" using assms(8) by (simp add: q_def)
  have diff: "t1 - T = da * 86400000000 + (a - r)" using t1 T(1) by (simp add: algebra_simps)
  show ?thesis
  proof (cases "7 \<le> (t1 - T) div 86400000000")
    case True
    then have "7 * 86400000000 \<le> t1 - T" by linarith
    then have d7: "da = 7 \<and> r \<le> a" using diff da assms(2,3) T(2,3) by auto
    then have kw: "k = wd" using da(3) wd assms(4,5) by auto
    have t: "t = q * 86400000000 + a" using True assms(9) t1 d7 by (simp add: algebra_simps)
    have "t div 86400000000 = q" using t assms(2,3) by simp
    moreover have "t mod 86400000000 = a" using t assms(2,3) by simp
    moreover have "t - T = a - r" using t T(1) by simp
    moreover have "(a - r) div 86400000000 = 0" using d7 assms(2,3) T(2,3) by simp
    ultimately show ?thesis using kw wd d7 t T by simp
  next
    case False
    then have t: "t = (q + da) * 86400000000 + a" using assms(9) t1 by simp
    have "t div 86400000000 = q + da" unfolding t using assms(2,3) by (rule day_split)
    moreover have "t mod 86400000000 = a" unfolding t using assms(2,3) by (rule day_split)
    moreover have "(q + da) mod 7 = k"
    proof -
      have "(q + da) mod 7 = (q mod 7 + da) mod 7" by (simp add: mod_add_left_eq)
      also have "\<dots> = (wd + da) mod 7" using wd by simp
      also have "\<dots> = k" using da(3) assms(4,5)
        by (auto simp: algebra_simps)
      finally show ?thesis .
    qed
    moreover have "t - T = t1 - T" using t t1 by simp
    moreover have "0 \<le> (t1 - T) div 86400000000"
    proof -
      have "0 \<le> t1 - T" using diff da assms(2,3) T(2,3) by auto
      then show ?thesis by (simp add: pos_imp_zdiv_nonneg_iff)
    qed
    moreover have "T \<le> t" using t T da assms(2) by auto
    ultimately show ?thesis using False by simp
  qed
qed


lemma clock_us_range: "valid_time t \<Longrightarrow> 0 \<le> clock_us t \<and> clock_us t < 86400000000"
  by (simp add: valid_time_def clock_us_def us_per_hour_def us_per_minute_def us_per_second_def)

lemma index_of_weekdays: "index_of weekdays sd = Some k \<Longrightarrow> k < 7"
  by (auto simp: weekdays_def split: if_splits)

lemma replace_clock_all:
  "valid_time at \<Longrightarrow>
   replace_clock d (Some (hour at)) (Some (minute at)) (second at) 0
     = Inr (d\<lparr>ticks := dt_day d * us_per_day + clock_us at\<rparr>)"
  by (simp add: replace_clock_def valid_time_def clock_us_def us_per_second_def algebra_simps)

lemma weekly_at:
  assumes u: "unit j = Some ''weeks''" and sd: "start_day j = Some sd"
    and k: "index_of weekdays sd = Some k" and at: "at_time j = Some at" and vt: "valid_time at"
    and tz: "at_time_zone j = None"
    and lr: "last_run j = None \<or> (\<exists>l. last_run j = Some l \<and> utcoffset l = None)"
    and nv: "utcoffset now = None" and t0: "0 \<le> ticks now"
    and rng: "ticks now + us_per_week < max_ticks"
  shows "schedule_from now 1 j =
     (None, j\<lparr>period := Some us_per_week,
              next_run := Some (now\<lparr>ticks := next_weekday_at (int k) (clock_us at) (ticks now)\<rparr>)\<rparr>)"
proof -
  define T where "T = ticks now"
  define a where "a = clock_us at"
  define wd where "wd = (T div 86400000000) mod 7"
  define da where "da = (if int k - wd \<le> 0 then int k - wd + 7 else int k - wd)"
  define t1 where "t1 = (T div 86400000000 + da) * 86400000000 + a"
  define t where "t = (if 7 \<le> (t1 - T) div 86400000000 then t1 - 7 * 86400000000 else t1)"
  have ar: "0 \<le> a" "a < 86400000000" using clock_us_range [OF vt] by (simp_all add: a_def)
  have k7: "0 \<le> int k" "int k < 7" using index_of_weekdays [OF k] by simp_all
  have T0: "0 \<le> T" using t0 by (simp add: T_def)
  have Tmax: "T + 604800000000 < 315537897600000000"
    using rng by (simp add: T_def us_per_week_def max_ticks_def)
  note wk = wk_arith [OF T0 ar k7 wd_def da_def t1_def t_def]
  have wdr: "0 \<le> wd" "wd < 7" by (simp_all add: wd_def)
  have dar: "1 \<le> da" "da \<le> 7" using wdr k7 by (auto simp: da_def)
  have tgt: "next_weekday_at (int k) (clock_us at) (ticks now) = t"
    by (simp add: next_weekday_at_def Let_def us_per_day_def t_def t1_def da_def wd_def a_def T_def)
  \<comment> \<open>period and the provisional next run\<close>
  let ?j1 = "j\<lparr>period := Some us_per_week, next_run := Some (now\<lparr>ticks := T + 604800000000\<rparr>)\<rparr>"
  have s1: "set_period now 1 j = (None, ?j1)"
    using set_period_ok [of j "''weeks''" us_per_week 1 now] u T0 Tmax
    by (simp add: unit_us_def us_per_week_def us_per_day_def max_delta_days_def max_ticks_def T_def)
  \<comment> \<open>the weekday\<close>
  let ?j2 = "?j1\<lparr>next_run := Some (now\<lparr>ticks := T + da * 86400000000\<rparr>)\<rparr>"
  have wdn: "weekday (now\<lparr>ticks := T + 604800000000\<rparr>) = wd"
  proof -
    have "(T + 604800000000) div 86400000000 = T div 86400000000 + 7" by simp
    then show ?thesis by (simp add: weekday_def dt_day_def us_per_day_def wd_def)
  qed
  have mk: "mk_timedelta (da * 86400000000 - 604800000000) = Inr (da * 86400000000 - 604800000000)"
  proof -
    have "da * 86400000000 - 604800000000 = (da - 7) * 86400000000" by (simp add: algebra_simps)
    then have "(da * 86400000000 - 604800000000) div 86400000000 = da - 7" by simp
    then show ?thesis using dar by (simp add: mk_timedelta_def us_per_day_def max_delta_days_def)
  qed
  have s2: "apply_start_day ?j1 = (None, ?j2)"
    using u sd k wdn mk dar T0 Tmax
    by (simp add: apply_start_day_def Let_def us_per_day_def us_per_week_def da_def dt_add_def
        max_ticks_def)
  have s3: "apply_normalize ?j2 = (None, ?j2)" using tz by (simp add: apply_normalize_def)
  \<comment> \<open>the clock anchor\<close>
  let ?nr1 = "now\<lparr>ticks := t1\<rparr>"
  let ?j3 = "?j2\<lparr>next_run := Some ?nr1\<rparr>"
  have dd: "dt_day (now\<lparr>ticks := T + da * 86400000000\<rparr>) = T div 86400000000 + da"
    by (simp add: dt_day_def us_per_day_def)
  have wr: "write_at_time ?j2 at (now\<lparr>ticks := T + da * 86400000000\<rparr>) = Inr ?nr1"
    using sd replace_clock_all [OF vt, of "now\<lparr>ticks := T + da * 86400000000\<rparr>"] dd
    by (simp add: write_at_time_def t1_def a_def us_per_day_def)
  have pp: "\<exists>b. past_period ?j3 ?nr1 us_per_week = Inr b"
    using lr tz nv
    by (auto simp: past_period_def to_at_timezone_def dt_sub_def comparable_def)
  have aa: "anchor_ahead ?j3 at now ?nr1 = None" using u by (simp add: anchor_ahead_def)
  have s4: "apply_at_time now ?j2 = (None, ?j3)"
  proof -
    obtain b where b: "past_period ?j3 ?nr1 us_per_week = Inr b" using pp by blast
    show ?thesis using at sd wr b aa
      by (cases b) (simp_all add: apply_at_time_def)
  qed
  \<comment> \<open>the correction by one period\<close>
  let ?j4 = "?j3\<lparr>next_run := Some (now\<lparr>ticks := t\<rparr>)\<rparr>"
  have ds: "dt_sub ?nr1 now = Inr (t1 - T)"
    using nv by (simp add: dt_sub_def comparable_def instant_def T_def)
  have s5: "apply_weekday_at now ?j3 = (None, ?j4)"
  proof (cases "7 \<le> (t1 - T) div 86400000000")
    case True
    then have tt: "t = t1 - 604800000000" by (simp add: t_def)
    have "0 \<le> t" using wk T0 by linarith
    moreover have "t < 315537897600000000" using tt Tmax dar ar by (simp add: t1_def)
    ultimately have "roll_back us_per_week ?j3 = (None, ?j4)"
      using tt
      by (simp add: roll_back_def dt_sub_td_def mk_timedelta_def dt_add_def us_per_week_def
          us_per_day_def max_delta_days_def max_ticks_def)
    then show ?thesis using True sd at ds
      by (simp add: apply_weekday_at_def td_days_def us_per_day_def)
  next
    case False
    then have "t = t1" by (simp add: t_def)
    then show ?thesis using False sd at ds
      by (simp add: apply_weekday_at_def td_days_def us_per_day_def)
  qed
  have s6: "apply_preserve ?j4 = (None, ?j4)" using tz by (simp add: apply_preserve_def)
  have "schedule_from now 1 j = (None, ?j4)"
    unfolding schedule_from_def s1 and_then_ok s2 s3 s4 s5 s6 ..
  then show ?thesis using tgt by simp
qed


lemma daily_at:
  assumes u: "unit j = Some ''days''" and i1: "interval j = 1" and sd: "start_day j = None"
    and at: "at_time j = Some at" and vt: "valid_time at" and tz: "at_time_zone j = None"
    and lr: "last_run j = None" and t0: "0 \<le> ticks now"
    and rng: "ticks now + us_per_day < max_ticks"
  shows "schedule_from now 1 j =
     (None, j\<lparr>period := Some us_per_day,
              next_run := Some (now\<lparr>ticks :=
                (if dt_time now < clock_us at then dt_day now else dt_day now + 1) * us_per_day
                  + clock_us at\<rparr>)\<rparr>)"
proof -
  define T where "T = ticks now"
  define a where "a = clock_us at"
  define q where "q = T div 86400000000"
  have ar: "0 \<le> a" "a < 86400000000" using clock_us_range [OF vt] by (simp_all add: a_def)
  have T0: "0 \<le> T" using t0 by (simp add: T_def)
  have q0: "0 \<le> q" using T0 by (simp add: q_def pos_imp_zdiv_nonneg_iff)
  have Tmax: "T + 86400000000 < 315537897600000000"
    using rng by (simp add: T_def us_per_day_def max_ticks_def)
  have qmax: "q * 86400000000 \<le> T" by (simp add: q_def)
  let ?j1 = "j\<lparr>period := Some us_per_day, next_run := Some (now\<lparr>ticks := T + 86400000000\<rparr>)\<rparr>"
  have s1: "set_period now 1 j = (None, ?j1)"
    using set_period_ok [of j "''days''" us_per_day 1 now] u T0 Tmax
    by (simp add: unit_us_def us_per_day_def max_delta_days_def max_ticks_def T_def)
  have s2: "apply_start_day ?j1 = (None, ?j1)" using sd by (simp add: apply_start_day_def)
  have s3: "apply_normalize ?j1 = (None, ?j1)" using tz by (simp add: apply_normalize_def)
  let ?nr1 = "now\<lparr>ticks := (q + 1) * 86400000000 + a\<rparr>"
  let ?j3 = "?j1\<lparr>next_run := Some ?nr1\<rparr>"
  have dd: "dt_day (now\<lparr>ticks := T + 86400000000\<rparr>) = q + 1"
    by (simp add: dt_day_def us_per_day_def q_def)
  have wr: "write_at_time ?j1 at (now\<lparr>ticks := T + 86400000000\<rparr>) = Inr ?nr1"
    using u replace_clock_all [OF vt, of "now\<lparr>ticks := T + 86400000000\<rparr>"] dd
    by (simp add: write_at_time_def a_def us_per_day_def)
  have pp: "past_period ?j3 ?nr1 us_per_day = Inr True"
    using lr tz by (simp add: past_period_def to_at_timezone_def)
  have tn: "dt_time ?nr1 = a"
    using day_split(2) [OF ar, of "q + 1"] by (simp add: dt_time_def us_per_day_def)
  have tnow: "dt_time now = T mod 86400000000" "dt_day now = q"
    by (simp_all add: dt_time_def dt_day_def us_per_day_def T_def q_def)
  let ?t = "(if dt_time now < a then q else q + 1) * 86400000000 + a"
  let ?j4 = "?j3\<lparr>next_run := Some (now\<lparr>ticks := ?t\<rparr>)\<rparr>"
  have s4: "apply_at_time now ?j1 = (None, ?j4)"
  proof (cases "dt_time now < a")
    case True
    then have aa: "anchor_ahead ?j3 at now ?nr1 = Some us_per_day"
      using u i1 tn by (simp add: anchor_ahead_def)
    have "0 \<le> q * 86400000000 + a" using q0 ar by simp
    moreover have "q * 86400000000 + a < 315537897600000000" using qmax ar Tmax by linarith
    ultimately have "roll_back us_per_day ?j3 = (None, ?j4)"
      using True
      by (simp add: roll_back_def dt_sub_td_def mk_timedelta_def dt_add_def us_per_day_def
          max_delta_days_def max_ticks_def algebra_simps)
    then show ?thesis using at u wr pp aa by (simp add: apply_at_time_def)
  next
    case False
    then have aa: "anchor_ahead ?j3 at now ?nr1 = None"
      using u tn by (simp add: anchor_ahead_def)
    show ?thesis using False at u wr pp aa by (simp add: apply_at_time_def)
  qed
  have s5: "apply_weekday_at now ?j4 = (None, ?j4)" using sd by (simp add: apply_weekday_at_def)
  have s6: "apply_preserve ?j4 = (None, ?j4)" using tz by (simp add: apply_preserve_def)
  have "schedule_from now 1 j = (None, ?j4)"
    unfolding schedule_from_def s1 and_then_ok s2 s3 s4 s5 s6 ..
  then show ?thesis using tnow by (simp add: a_def us_per_day_def)
qed

lemma schedule_next_run_simulated:
  assumes "\<not> is_realtime w" "stored_timestamp w = Some now" "heap w r = Some j"
    "valid_unit (unit j)" "latest j = None" "at_time_zone j = None"
  shows "schedule_next_run r w =
     (fst (schedule_from now (interval j) j),
      w\<lparr>heap := (heap w)(r \<mapsto> snd (schedule_from now (interval j) j))\<rparr>)"
  using assms
  by (simp add: schedule_next_run_def resolve_interval_def reference_now_def
      timestamp_get_def split: prod.split)

lemma unregistered_simps:
  "\<not> is_realtime (unregistered j t)" "stored_timestamp (unregistered j t) = Some (naive t)"
  "heap (unregistered j t) 0 = Some j"
  by (simp_all add: unregistered_def simulated_def)

text \<open>
  C4. The job \<open>every().day.at("10:30")\<close> (unit days, interval 1, anchor 10:30:00, nothing
  else set, never run), its next run computed on a simulated scheduler at the instant
  \<open>now\<close>: when the clock of \<open>now\<close> is strictly before 10:30, \<open>next_run\<close> is the day of \<open>now\<close> at
  10:30:00; when it is 10:30 or later, \<open>next_run\<close> is the following day at 10:30:00. (The
  computation passes through \<open>now\<close> plus one day, which has to be a datetime.)
\<close>

theorem daily_at_half_past_ten:
  assumes "\<not> is_realtime w" and "stored_timestamp w = Some now" and "heap w r = Some j"
    and "unit j = Some ''days''" and "interval j = 1" and "at_time j = Some half_past_ten"
    and "start_day j = None" and "latest j = None" and "at_time_zone j = None"
    and "last_run j = None"
    and "0 \<le> ticks now" and "ticks now + us_per_day < max_ticks"
  shows "(dt_time now < 37800000000 \<longrightarrow>
            schedule_next_run r w =
              (None, w\<lparr>heap := (heap w)(r \<mapsto> j\<lparr>period := Some us_per_day,
                 next_run := Some (now\<lparr>ticks := dt_day now * us_per_day + 37800000000\<rparr>)\<rparr>)\<rparr>)) \<and>
         (37800000000 \<le> dt_time now \<longrightarrow>
            schedule_next_run r w =
              (None, w\<lparr>heap := (heap w)(r \<mapsto> j\<lparr>period := Some us_per_day,
                 next_run := Some (now\<lparr>ticks := (dt_day now + 1) * us_per_day + 37800000000\<rparr>)\<rparr>)\<rparr>))"
proof -
  have vt: "valid_time half_past_ten" by (simp add: valid_time_def half_past_ten_def)
  have c: "clock_us half_past_ten = 37800000000"
    by (simp add: clock_us_def half_past_ten_def us_per_hour_def us_per_minute_def us_per_second_def)
  have v: "valid_unit (unit j)" using assms(4) by (simp add: valid_unit_def)
  show ?thesis
    using schedule_next_run_simulated [OF assms(1,2,3) v assms(8,9)]
      daily_at [OF assms(4,5,7,6) vt assms(9,10,11,12)] assms(5) c
    by simp
qed

theorem daily_at_half_past_ten_witness:
  "schedule_next_run 0 (unregistered every_day_at_1030 63839696400000000) =
     (None, (unregistered every_day_at_1030 63839696400000000)
        \<lparr>heap := (heap (unregistered every_day_at_1030 63839696400000000))
           (0 \<mapsto> every_day_at_1030\<lparr>period := Some us_per_day,
                     next_run := Some (naive 63839701800000000)\<rparr>)\<rparr>)
   \<and> schedule_next_run 0 (unregistered every_day_at_1030 63839703600000000) =
     (None, (unregistered every_day_at_1030 63839703600000000)
        \<lparr>heap := (heap (unregistered every_day_at_1030 63839703600000000))
           (0 \<mapsto> every_day_at_1030\<lparr>period := Some us_per_day,
                     next_run := Some (naive 63839788200000000)\<rparr>)\<rparr>)"
proof -
  have f: "unit every_day_at_1030 = Some ''days''" "interval every_day_at_1030 = 1"
    "at_time every_day_at_1030 = Some half_past_ten" "start_day every_day_at_1030 = None"
    "latest every_day_at_1030 = None" "at_time_zone every_day_at_1030 = None"
    "last_run every_day_at_1030 = None"
    by (simp_all add: every_day_at_1030_def new_job_def)
  have a: "schedule_next_run 0 (unregistered every_day_at_1030 63839696400000000) =
     (None, (unregistered every_day_at_1030 63839696400000000)
        \<lparr>heap := (heap (unregistered every_day_at_1030 63839696400000000))
           (0 \<mapsto> every_day_at_1030\<lparr>period := Some us_per_day,
                     next_run := Some (naive 63839701800000000)\<rparr>)\<rparr>)"
    using daily_at_half_past_ten [of "unregistered every_day_at_1030 63839696400000000"
        "naive 63839696400000000" 0 every_day_at_1030] f
    by (simp add: unregistered_simps naive_def dt_time_def dt_day_def us_per_day_def max_ticks_def)
  have b: "schedule_next_run 0 (unregistered every_day_at_1030 63839703600000000) =
     (None, (unregistered every_day_at_1030 63839703600000000)
        \<lparr>heap := (heap (unregistered every_day_at_1030 63839703600000000))
           (0 \<mapsto> every_day_at_1030\<lparr>period := Some us_per_day,
                     next_run := Some (naive 63839788200000000)\<rparr>)\<rparr>)"
    using daily_at_half_past_ten [of "unregistered every_day_at_1030 63839703600000000"
        "naive 63839703600000000" 0 every_day_at_1030] f
    by (simp add: unregistered_simps naive_def dt_time_def dt_day_def us_per_day_def max_ticks_def)
  show ?thesis using a b by simp
qed

text \<open>
  C5. The job \<open>every().monday.at("12:00")\<close> (unit weeks, interval 1, start day monday,
  anchor 12:00:00), its next run computed on a simulated scheduler at any naive instant
  \<open>now\<close>, whatever the weekday and the clock: the computation succeeds, \<open>next_run\<close> is a
  Monday with the clock at 12:00:00, \<open>(next_run - now).days\<close> is between 0 and 6, and when
  \<open>now\<close> is a Monday past 12:00, \<open>next_run\<close> is the Monday 7 days later.
\<close>

theorem monday_at_noon:
  assumes "\<not> is_realtime w" and "stored_timestamp w = Some now" and "heap w r = Some j"
    and "unit j = Some ''weeks''" and "interval j = 1" and "start_day j = Some ''monday''"
    and "at_time j = Some noon" and "latest j = None" and "at_time_zone j = None"
    and "last_run j = None \<or> (\<exists>l. last_run j = Some l \<and> utcoffset l = None)"
    and "utcoffset now = None" and "0 \<le> ticks now" and "ticks now + us_per_week < max_ticks"
  shows "\<exists>t. schedule_next_run r w =
              (None, w\<lparr>heap := (heap w)(r \<mapsto> j\<lparr>period := Some us_per_week, next_run := Some t\<rparr>)\<rparr>)
           \<and> weekday t = 0 \<and> dt_time t = 43200000000
           \<and> (\<exists>d. dt_sub t now = Inr d \<and> 0 \<le> td_days d \<and> td_days d \<le> 6)
           \<and> (weekday now = 0 \<and> 43200000000 < dt_time now \<longrightarrow> dt_day t = dt_day now + 7)"
proof -
  have vt: "valid_time noon" by (simp add: valid_time_def noon_def)
  have c: "clock_us noon = 43200000000"
    by (simp add: clock_us_def noon_def us_per_hour_def us_per_minute_def us_per_second_def)
  have v: "valid_unit (unit j)" using assms(4) by (simp add: valid_unit_def)
  have k: "index_of weekdays ''monday'' = Some 0" by (simp add: weekdays_def)
  define T where "T = ticks now"
  define wd where "wd = (T div 86400000000) mod 7"
  define da where "da = (if 0 - wd \<le> 0 then 0 - wd + 7 else 0 - wd)"
  define t1 where "t1 = (T div 86400000000 + da) * 86400000000 + 43200000000"
  define t where "t = (if 7 \<le> (t1 - T) div 86400000000 then t1 - 7 * 86400000000 else t1)"
  have T0: "0 \<le> T" using assms(12) by (simp add: T_def)
  have wk: "(t div 86400000000) mod 7 = 0 \<and> t mod 86400000000 = 43200000000
     \<and> 0 \<le> (t - T) div 86400000000 \<and> (t - T) div 86400000000 \<le> 6 \<and> T \<le> t"
    by (rule wk_arith [OF T0 _ _ _ _ wd_def da_def t1_def t_def]) simp_all
  have tgt: "next_weekday_at (int 0) (clock_us noon) (ticks now) = t"
    by (simp add: next_weekday_at_def Let_def us_per_day_def t_def t1_def da_def wd_def T_def c)
  have sn: "schedule_next_run r w =
      (None, w\<lparr>heap := (heap w)(r \<mapsto> j\<lparr>period := Some us_per_week,
                 next_run := Some (now\<lparr>ticks := t\<rparr>)\<rparr>)\<rparr>)"
    using schedule_next_run_simulated [OF assms(1,2,3) v assms(8,9)]
      weekly_at [OF assms(4,6) k assms(7) vt assms(9,10,11,12,13)] assms(5) tgt
    by simp
  have roll: "weekday now = 0 \<and> 43200000000 < dt_time now \<longrightarrow> dt_day (now\<lparr>ticks := t\<rparr>) = dt_day now + 7"
  proof
    assume h: "weekday now = 0 \<and> 43200000000 < dt_time now"
    then have w0: "wd = 0" by (simp add: weekday_def dt_day_def us_per_day_def wd_def T_def)
    then have d7: "da = 7" by (simp add: da_def)
    have tm: "43200000000 < T mod 86400000000" using h by (simp add: dt_time_def us_per_day_def T_def)
    have "t1 - T = 7 * 86400000000 + (43200000000 - T mod 86400000000)"
      using d7 by (simp add: t1_def algebra_simps minus_div_mult_eq_mod [symmetric])
    then have "t1 - T < 7 * 86400000000" using tm by linarith
    then have "\<not> 7 \<le> (t1 - T) div 86400000000" by linarith
    then have "t = (T div 86400000000 + 7) * 86400000000 + 43200000000" using d7 by (simp add: t_def t1_def)
    then have "t div 86400000000 = T div 86400000000 + 7"
      using day_split(1) [of 43200000000 "T div 86400000000 + 7"] by simp
    then show "dt_day (now\<lparr>ticks := t\<rparr>) = dt_day now + 7"
      by (simp add: dt_day_def us_per_day_def T_def)
  qed
  have ds: "dt_sub (now\<lparr>ticks := t\<rparr>) now = Inr (t - T)"
    using assms(11) by (simp add: dt_sub_def comparable_def instant_def T_def)
  show ?thesis
    apply (rule exI [of _ "now\<lparr>ticks := t\<rparr>"])
    using sn wk roll ds
    by (simp add: weekday_def dt_day_def dt_time_def td_days_def us_per_day_def)
qed


theorem monday_at_noon_witness:
  "\<exists>t. schedule_next_run 0 (unregistered every_monday_at_noon 63839710800000000) =
          (None, (unregistered every_monday_at_noon 63839710800000000)
             \<lparr>heap := (heap (unregistered every_monday_at_noon 63839710800000000))
                (0 \<mapsto> every_monday_at_noon\<lparr>period := Some us_per_week, next_run := Some t\<rparr>)\<rparr>)
       \<and> weekday t = 0 \<and> dt_time t = 43200000000
       \<and> (\<exists>d. dt_sub t (naive 63839710800000000) = Inr d \<and> 0 \<le> td_days d \<and> td_days d \<le> 6)
       \<and> dt_day t = 738892"
proof -
  have f: "unit every_monday_at_noon = Some ''weeks''" "interval every_monday_at_noon = 1"
    "at_time every_monday_at_noon = Some noon" "start_day every_monday_at_noon = Some ''monday''"
    "latest every_monday_at_noon = None" "at_time_zone every_monday_at_noon = None"
    "last_run every_monday_at_noon = None"
    by (simp_all add: every_monday_at_noon_def new_job_def)
  have n: "weekday (naive 63839710800000000) = 0" "dt_time (naive 63839710800000000) = 46800000000"
    "dt_day (naive 63839710800000000) = 738885"
    by (simp_all add: weekday_def dt_day_def dt_time_def naive_def us_per_day_def)
  show ?thesis
    using monday_at_noon [of "unregistered every_monday_at_noon 63839710800000000"
        "naive 63839710800000000" 0 every_monday_at_noon] f n
    by (simp add: unregistered_simps naive_def us_per_week_def max_ticks_def)
qed

section \<open>Registered jobs have a next run\<close>
































end
